theory Spec2Isabelle
  imports Complex_Main
begin

section \<open>Double-precision values\<close>

text \<open>
  The planner computes with C++ \<open>double\<close>. A double is a real number, one of the two
  infinities, or the not-a-number value. The result of an arithmetic operation on two numbers
  is the exact result passed through the rounding of the format, which may return a nearby
  number, zero for a result too small, or an infinity for a result too large. The rounding is
  a parameter \<open>fp\<close> of every operation that rounds. Operations on the infinities and on NaN
  follow IEEE 754: \<open>inf - inf\<close> and \<open>0 * inf\<close> are NaN, every operation with a NaN operand
  yields NaN, every ordered comparison with a NaN operand is false, and the square root of a
  negative number is NaN. The two zeros of the format are one value here. Each operation of
  the source is rounded on its own (no fused multiply-add).
\<close>

datatype double = Dbl real | PosInf | NegInf | NaN

type_synonym rounding = "real \<Rightarrow> double"

fun dneg :: "double \<Rightarrow> double" where
  "dneg (Dbl a) = Dbl (- a)"
| "dneg PosInf = NegInf"
| "dneg NegInf = PosInf"
| "dneg NaN = NaN"

fun dadd :: "rounding \<Rightarrow> double \<Rightarrow> double \<Rightarrow> double" where
  "dadd fp (Dbl a) (Dbl b) = fp (a + b)"
| "dadd fp NaN b = NaN"
| "dadd fp a NaN = NaN"
| "dadd fp PosInf NegInf = NaN"
| "dadd fp NegInf PosInf = NaN"
| "dadd fp PosInf b = PosInf"
| "dadd fp NegInf b = NegInf"
| "dadd fp a PosInf = PosInf"
| "dadd fp a NegInf = NegInf"

text \<open>In IEEE 754 the difference \<open>a - b\<close> is the sum of \<open>a\<close> and the negated \<open>b\<close>.\<close>

definition dsub :: "rounding \<Rightarrow> double \<Rightarrow> double \<Rightarrow> double" where
  "dsub fp a b = dadd fp a (dneg b)"

text \<open>An infinity of the sign of \<open>a\<close>; there is none for zero.\<close>

definition signed_inf :: "real \<Rightarrow> double" where
  "signed_inf a = (if a = 0 then NaN else if 0 < a then PosInf else NegInf)"

fun dmul :: "rounding \<Rightarrow> double \<Rightarrow> double \<Rightarrow> double" where
  "dmul fp (Dbl a) (Dbl b) = fp (a * b)"
| "dmul fp NaN b = NaN"
| "dmul fp a NaN = NaN"
| "dmul fp (Dbl a) PosInf = signed_inf a"
| "dmul fp (Dbl a) NegInf = signed_inf (- a)"
| "dmul fp PosInf (Dbl b) = signed_inf b"
| "dmul fp NegInf (Dbl b) = signed_inf (- b)"
| "dmul fp PosInf PosInf = PosInf"
| "dmul fp NegInf NegInf = PosInf"
| "dmul fp PosInf NegInf = NegInf"
| "dmul fp NegInf PosInf = NegInf"

text \<open>
  The only divisor in the source is the literal 2.0. A zero divisor counts as the positive
  zero.
\<close>

fun ddiv :: "rounding \<Rightarrow> double \<Rightarrow> double \<Rightarrow> double" where
  "ddiv fp (Dbl a) (Dbl b) = (if b = 0 then signed_inf a else fp (a / b))"
| "ddiv fp NaN b = NaN"
| "ddiv fp a NaN = NaN"
| "ddiv fp (Dbl a) PosInf = Dbl 0"
| "ddiv fp (Dbl a) NegInf = Dbl 0"
| "ddiv fp PosInf (Dbl b) = (if 0 \<le> b then PosInf else NegInf)"
| "ddiv fp NegInf (Dbl b) = (if 0 \<le> b then NegInf else PosInf)"
| "ddiv fp a b = NaN"

fun dless :: "double \<Rightarrow> double \<Rightarrow> bool" where
  "dless (Dbl a) (Dbl b) = (a < b)"
| "dless NaN b = False"
| "dless a NaN = False"
| "dless PosInf b = False"
| "dless a NegInf = False"
| "dless a b = True"

fun dle :: "double \<Rightarrow> double \<Rightarrow> bool" where
  "dle (Dbl a) (Dbl b) = (a \<le> b)"
| "dle NaN b = False"
| "dle a NaN = False"
| "dle NegInf b = True"
| "dle a PosInf = True"
| "dle a b = False"

definition dgreater :: "double \<Rightarrow> double \<Rightarrow> bool" where
  "dgreater a b = dless b a"

text \<open>\<open>std::max(a, b)\<close> is \<open>(a < b) ? b : a\<close> and \<open>std::min(a, b)\<close> is \<open>(b < a) ? b : a\<close>.\<close>

definition std_max :: "double \<Rightarrow> double \<Rightarrow> double" where
  "std_max a b = (if dless a b then b else a)"

definition std_min :: "double \<Rightarrow> double \<Rightarrow> double" where
  "std_min a b = (if dless b a then b else a)"

fun std_fabs :: "double \<Rightarrow> double" where
  "std_fabs (Dbl a) = Dbl \<bar>a\<bar>"
| "std_fabs PosInf = PosInf"
| "std_fabs NegInf = PosInf"
| "std_fabs NaN = NaN"

fun std_sqrt :: "rounding \<Rightarrow> double \<Rightarrow> double" where
  "std_sqrt fp (Dbl a) = (if a < 0 then NaN else fp (sqrt a))"
| "std_sqrt fp PosInf = PosInf"
| "std_sqrt fp NegInf = NaN"
| "std_sqrt fp NaN = NaN"

fun is_finite :: "double \<Rightarrow> bool" where
  "is_finite (Dbl a) = True"
| "is_finite PosInf = False"
| "is_finite NegInf = False"
| "is_finite NaN = False"

text \<open>
  What the theorems on the stop distance use of the rounding: it keeps the order, it commutes
  with negation, a number it returns is returned for itself, and the numbers 1 and one half
  are returned for themselves. Rounding to nearest of IEEE 754 binary64 has these properties.
\<close>

definition is_rounding :: "rounding \<Rightarrow> bool" where
  "is_rounding fp \<longleftrightarrow>
     (\<forall>x y. x \<le> y \<longrightarrow> dle (fp x) (fp y)) \<and>
     (\<forall>x. fp (- x) = dneg (fp x)) \<and>
     (\<forall>x y. fp x = Dbl y \<longrightarrow> fp y = Dbl y) \<and>
     fp 1 = Dbl 1 \<and> fp (1 / 2) = Dbl (1 / 2)"

text \<open>
  A rounding for the examples: every number within the finite range of binary64 is returned
  as it is, and a number beyond the largest finite double overflows to an infinity. The
  arithmetic of the examples on the straight road stays on small dyadic numbers, which
  binary64 holds exactly.
\<close>

definition DBL_MAX :: real where
  "DBL_MAX = 2 ^ 1024 - 2 ^ 971"

definition round_in_range :: rounding where
  "round_in_range x =
     (if DBL_MAX < x then PosInf else if x < - DBL_MAX then NegInf else Dbl x)"

section \<open>Data model\<close>

record SLBoundary =
  start_s :: double
  end_s :: double
  start_l :: double
  end_l :: double

record FrenetFramePoint =
  frenet_s :: double
  frenet_l :: double

record PathData =
  frenet_frame_path :: "FrenetFramePoint list"

record ReferencePoint =
  ref_x :: double
  ref_y :: double
  ref_heading :: double

record PointENU =
  point_x :: double
  point_y :: double

datatype StopReasonCode = STOP_REASON_DESTINATION | STOP_REASON_OBSTACLE

record ObjectStop =
  reason_code :: StopReasonCode
  distance_s :: double
  stop_point :: PointENU
  stop_heading :: double

datatype NudgeType = LEFT_NUDGE | RIGHT_NUDGE

record ObjectNudge =
  nudge_type :: NudgeType
  distance_l :: double

text \<open>
  \<open>ObjectDecisionType\<close> is a message with one \<open>object_tag\<close> field set at a time. Its
  declaration is not part of the sources at hand; the tags that the path decider neither reads
  nor writes carry no payload here.
\<close>

datatype ObjectDecisionType =
    OBJECT_TAG_NOT_SET
  | Ignore
  | Stop ObjectStop
  | Follow
  | Yield
  | Overtake
  | Nudge ObjectNudge
  | Sidepass
  | Avoid

fun has_ignore :: "ObjectDecisionType \<Rightarrow> bool" where
  "has_ignore Ignore = True"
| "has_ignore _ = False"

fun has_stop :: "ObjectDecisionType \<Rightarrow> bool" where
  "has_stop (Stop st) = True"
| "has_stop _ = False"

text \<open>
  Modelled from the spec: the boundary-type enumeration of \<open>StBoundary\<close> is declared outside
  the sources at hand. The spec names the keep-clear marker; every other value of the
  enumeration is an \<open>OTHER_BOUNDARY\<close>.
\<close>

datatype BoundaryType = KEEP_CLEAR | OTHER_BOUNDARY nat

text \<open>
  Modelled from the spec: the decision record of an obstacle (class \<open>PathObstacle\<close>, declared
  outside the sources at hand) holds two independent slots, longitudinal and lateral, each
  either unset or set, with the identity of the setting stage retained.
\<close>

datatype DecisionSlot = Unset | SetBy string ObjectDecisionType

record Obstacle =
  Id :: string
  IsStatic :: bool

record PathObstacle =
  obstacle :: Obstacle
  boundary_type :: BoundaryType
  perception_sl_boundary :: SLBoundary
  longitudinal_slot :: DecisionSlot
  lateral_slot :: DecisionSlot

definition HasLongitudinalDecision :: "PathObstacle \<Rightarrow> bool" where
  "HasLongitudinalDecision po = (longitudinal_slot po \<noteq> Unset)"

definition HasLateralDecision :: "PathObstacle \<Rightarrow> bool" where
  "HasLateralDecision po = (lateral_slot po \<noteq> Unset)"

fun slot_decision :: "DecisionSlot \<Rightarrow> ObjectDecisionType" where
  "slot_decision Unset = OBJECT_TAG_NOT_SET"
| "slot_decision (SetBy tag d) = d"

definition LongitudinalDecision :: "PathObstacle \<Rightarrow> ObjectDecisionType" where
  "LongitudinalDecision po = slot_decision (longitudinal_slot po)"

definition LateralDecision :: "PathObstacle \<Rightarrow> ObjectDecisionType" where
  "LateralDecision po = slot_decision (lateral_slot po)"

text \<open>
  The ledger (class \<open>PathDecision\<close>) keeps its obstacles in an indexed list: the items in
  insertion order, each found again through the identity of its obstacle.
\<close>

record PathDecision =
  path_obstacles :: "PathObstacle list"

primrec update_first :: "string \<Rightarrow> (PathObstacle \<Rightarrow> PathObstacle) \<Rightarrow> PathObstacle list
    \<Rightarrow> PathObstacle list" where
  "update_first object_id f [] = []"
| "update_first object_id f (po # pos) =
     (if Id (obstacle po) = object_id then f po # pos
      else po # update_first object_id f pos)"

text \<open>
  Modelled from the spec: \<open>PathDecision::AddLongitudinalDecision\<close> and
  \<open>PathDecision::AddLateralDecision\<close> are defined outside the sources at hand. They are the
  ledger's \<open>add_decision(stage_name, id, axis, Decision)\<close>: the slot of that axis in the record
  of the identified obstacle is set to the decision, tagged with the stage's name; a ledger
  without such an obstacle is left as it is.
\<close>

definition AddLongitudinalDecision :: "string \<Rightarrow> string \<Rightarrow> ObjectDecisionType
    \<Rightarrow> PathDecision \<Rightarrow> PathDecision" where
  "AddLongitudinalDecision tag object_id decision pd =
     pd\<lparr>path_obstacles :=
          update_first object_id (\<lambda>po. po\<lparr>longitudinal_slot := SetBy tag decision\<rparr>)
            (path_obstacles pd)\<rparr>"

definition AddLateralDecision :: "string \<Rightarrow> string \<Rightarrow> ObjectDecisionType
    \<Rightarrow> PathDecision \<Rightarrow> PathDecision" where
  "AddLateralDecision tag object_id decision pd =
     pd\<lparr>path_obstacles :=
          update_first object_id (\<lambda>po. po\<lparr>lateral_slot := SetBy tag decision\<rparr>)
            (path_obstacles pd)\<rparr>"

section \<open>Configuration and collaborators\<close>

text \<open>
  The flags, the vehicle configuration, the reference line of the cycle and the interpolation
  of the planned path are defined outside the sources at hand; the decider reads them, and
  they are parameters of the model.
\<close>

record Context =
  vehicle_param_width :: double
  MinSafeTurnRadius :: double
  AdcSlBoundary :: SLBoundary
  GetReferencePoint :: "double \<Rightarrow> ReferencePoint"
  EvaluateByS :: "FrenetFramePoint list \<Rightarrow> double \<Rightarrow> FrenetFramePoint"
  FLAGS_lateral_ignore_buffer :: double
  FLAGS_static_decision_nudge_l_buffer :: double
  FLAGS_enable_nudge_decision :: bool
  FLAGS_nudge_distance_obstacle :: double
  FLAGS_max_stop_distance_obstacle :: double
  FLAGS_min_stop_distance_obstacle :: double
  FLAGS_destination_obstacle_id :: string
  FLAGS_stop_distance_destination :: double

section \<open>Stop distance\<close>

definition stop_distance_buffer :: double where
  "stop_distance_buffer = Dbl (1 / 2)"

text \<open>The lateral separation of \<open>MinimumRadiusStopDistance\<close> after its two clamps.\<close>

definition lateral_diff_clamped :: "rounding \<Rightarrow> Context \<Rightarrow> PathObstacle \<Rightarrow> double" where
  "lateral_diff_clamped fp ctx path_obstacle =
     (let lateral_diff =
            std_max
              (std_fabs (dsub fp (start_l (perception_sl_boundary path_obstacle))
                              (end_l (AdcSlBoundary ctx))))
              (std_fabs (dsub fp (end_l (perception_sl_boundary path_obstacle))
                              (start_l (AdcSlBoundary ctx))));
          lateral_diff = std_max lateral_diff (vehicle_param_width ctx);
          lateral_diff =
            std_min lateral_diff
              (dsub fp (dadd fp (vehicle_param_width ctx)
                          (end_l (perception_sl_boundary path_obstacle)))
                    (start_l (perception_sl_boundary path_obstacle)))
      in lateral_diff)"

text \<open>The expression under the square root.\<close>

definition radicand :: "rounding \<Rightarrow> double \<Rightarrow> double \<Rightarrow> double" where
  "radicand fp min_turn_radius lateral_diff =
     dsub fp (dmul fp min_turn_radius min_turn_radius)
          (dmul fp (dsub fp min_turn_radius lateral_diff)
                   (dsub fp min_turn_radius lateral_diff))"

definition MinimumRadiusStopDistance :: "rounding \<Rightarrow> Context \<Rightarrow> PathObstacle \<Rightarrow> double" where
  "MinimumRadiusStopDistance fp ctx path_obstacle =
     (let min_turn_radius = MinSafeTurnRadius ctx;
          lateral_diff = lateral_diff_clamped fp ctx path_obstacle;
          stop_distance =
            dadd fp (std_sqrt fp (radicand fp min_turn_radius lateral_diff))
                    stop_distance_buffer;
          stop_distance = std_min stop_distance (FLAGS_max_stop_distance_obstacle ctx);
          stop_distance = std_max stop_distance (FLAGS_min_stop_distance_obstacle ctx)
      in stop_distance)"

definition GenerateObjectStopDecision :: "rounding \<Rightarrow> Context \<Rightarrow> PathObstacle \<Rightarrow> ObjectStop" where
  "GenerateObjectStopDecision fp ctx path_obstacle =
     (let is_destination =
            (Id (obstacle path_obstacle) = FLAGS_destination_obstacle_id ctx);
          stop_distance =
            (if is_destination then FLAGS_stop_distance_destination ctx
             else MinimumRadiusStopDistance fp ctx path_obstacle);
          stop_ref_s = dsub fp (start_s (perception_sl_boundary path_obstacle)) stop_distance;
          stop_ref_point = GetReferencePoint ctx stop_ref_s
      in \<lparr>reason_code =
            (if is_destination then STOP_REASON_DESTINATION else STOP_REASON_OBSTACLE),
          distance_s = dneg stop_distance,
          stop_point = \<lparr>point_x = ref_x stop_ref_point, point_y = ref_y stop_ref_point\<rparr>,
          stop_heading = ref_heading stop_ref_point\<rparr>)"

section \<open>Decisions for static obstacles\<close>

text \<open>
  One iteration of the loop of \<open>MakeStaticObstacleDecision\<close>, for the item \<open>path_obstacle\<close>
  of the ledger. Every \<open>continue\<close> and every branch without a write returns the ledger as
  it is.
\<close>

definition MakeStaticObstacleDecision_body :: "rounding \<Rightarrow> Context \<Rightarrow> FrenetFramePoint list \<Rightarrow> double
    \<Rightarrow> double \<Rightarrow> PathObstacle \<Rightarrow> PathDecision \<Rightarrow> PathDecision" where
  "MakeStaticObstacleDecision_body fp ctx frenet_points lateral_radius lateral_stop_radius
       path_obstacle path_decision =
     (let obs = obstacle path_obstacle in
      if \<not> IsStatic obs then path_decision
      else if HasLongitudinalDecision path_obstacle \<and>
              has_ignore (LongitudinalDecision path_obstacle) \<and>
              HasLateralDecision path_obstacle \<and>
              has_ignore (LateralDecision path_obstacle) then path_decision
      else if HasLongitudinalDecision path_obstacle \<and>
              has_stop (LongitudinalDecision path_obstacle) then path_decision
      else if boundary_type path_obstacle = KEEP_CLEAR then path_decision
      else
        let object_decision = Ignore;
            sl_boundary = perception_sl_boundary path_obstacle in
        if dless (start_s sl_boundary) (frenet_s (hd frenet_points)) \<or>
           dgreater (start_s sl_boundary) (frenet_s (last frenet_points)) then
          AddLateralDecision ''PathDecider'' (Id obs) object_decision
            (AddLongitudinalDecision ''PathDecider'' (Id obs) object_decision path_decision)
        else
          let frenet_point = EvaluateByS ctx frenet_points (start_s sl_boundary);
              curr_l = frenet_l frenet_point in
          if dgreater (dsub fp curr_l lateral_radius) (end_l sl_boundary) \<or>
             dless (dadd fp curr_l lateral_radius) (start_l sl_boundary) then
            AddLateralDecision ''PathDecider'' (Id obs) object_decision path_decision
          else if dless (dsub fp curr_l lateral_stop_radius) (end_l sl_boundary) \<and>
                  dgreater (dadd fp curr_l lateral_stop_radius) (start_l sl_boundary) then
            AddLongitudinalDecision ''PathDecider'' (Id obs)
              (Stop (GenerateObjectStopDecision fp ctx path_obstacle)) path_decision
          else if FLAGS_enable_nudge_decision ctx \<and>
                  dgreater (dsub fp curr_l lateral_stop_radius) (end_l sl_boundary) then
            AddLateralDecision ''PathDecider'' (Id obs)
              (Nudge \<lparr>nudge_type = LEFT_NUDGE,
                       distance_l = FLAGS_nudge_distance_obstacle ctx\<rparr>) path_decision
          else if FLAGS_enable_nudge_decision ctx then
            AddLateralDecision ''PathDecider'' (Id obs)
              (Nudge \<lparr>nudge_type = RIGHT_NUDGE,
                       distance_l = dneg (FLAGS_nudge_distance_obstacle ctx)\<rparr>) path_decision
          else path_decision)"

text \<open>
  The loop runs over the items of the ledger in their order; an item is named by its position
  and read from the ledger as it is when its turn comes.
\<close>

fun MakeStaticObstacleDecision_loop :: "rounding \<Rightarrow> Context \<Rightarrow> FrenetFramePoint list \<Rightarrow> double
    \<Rightarrow> double \<Rightarrow> nat list \<Rightarrow> PathDecision \<Rightarrow> PathDecision" where
  "MakeStaticObstacleDecision_loop fp ctx frenet_points lateral_radius lateral_stop_radius []
       path_decision = path_decision"
| "MakeStaticObstacleDecision_loop fp ctx frenet_points lateral_radius lateral_stop_radius
       (i # items) path_decision =
     MakeStaticObstacleDecision_loop fp ctx frenet_points lateral_radius lateral_stop_radius
       items
       (MakeStaticObstacleDecision_body fp ctx frenet_points lateral_radius lateral_stop_radius
          (path_obstacles path_decision ! i) path_decision)"

definition MakeStaticObstacleDecision :: "rounding \<Rightarrow> Context \<Rightarrow> PathData \<Rightarrow> PathDecision
    \<Rightarrow> bool \<times> PathDecision" where
  "MakeStaticObstacleDecision fp ctx path_data path_decision =
     (let frenet_points = frenet_frame_path path_data in
      if frenet_points = [] then (False, path_decision)
      else
        let half_width = ddiv fp (vehicle_param_width ctx) (Dbl 2);
            lateral_radius = dadd fp half_width (FLAGS_lateral_ignore_buffer ctx);
            lateral_stop_radius =
              dadd fp half_width (FLAGS_static_decision_nudge_l_buffer ctx)
        in (True,
            MakeStaticObstacleDecision_loop fp ctx frenet_points lateral_radius
              lateral_stop_radius [0..<length (path_obstacles path_decision)]
              path_decision))"

definition MakeObjectDecision :: "rounding \<Rightarrow> Context \<Rightarrow> PathData \<Rightarrow> PathDecision
    \<Rightarrow> bool \<times> PathDecision" where
  "MakeObjectDecision fp ctx path_data path_decision =
     (case MakeStaticObstacleDecision fp ctx path_data path_decision of
        (False, pd) \<Rightarrow> (False, pd)
      | (True, pd) \<Rightarrow> (True, pd))"

datatype ErrorCode = OK | PLANNING_ERROR

record Status =
  code :: ErrorCode
  msg :: string

text \<open>
  \<open>Process\<close> receives the ledger through a pointer; \<open>CHECK_NOTNULL\<close> ends the process on a
  null pointer, which is the outcome \<open>CheckFailed\<close>.
\<close>

datatype ProcessOutcome = CheckFailed | Returned Status PathDecision

definition Process :: "rounding \<Rightarrow> Context \<Rightarrow> PathData \<Rightarrow> PathDecision option \<Rightarrow> ProcessOutcome" where
  "Process fp ctx path_data path_decision =
     (case path_decision of
        None \<Rightarrow> CheckFailed
      | Some pd \<Rightarrow>
          (case MakeObjectDecision fp ctx path_data pd of
             (False, pd') \<Rightarrow>
               Returned \<lparr>code = PLANNING_ERROR, msg = ''dp_road_graph decision ''\<rparr> pd'
           | (True, pd') \<Rightarrow> Returned \<lparr>code = OK, msg = []\<rparr> pd'))"

section \<open>Reading the ledger after the loop\<close>

definition obstacle_ids :: "PathDecision \<Rightarrow> string list" where
  "obstacle_ids pd = map (\<lambda>po. Id (obstacle po)) (path_obstacles pd)"

text \<open>
  The record of an item after its own iteration: the iteration run on the ledger that holds
  this item alone.
\<close>

definition item_after :: "rounding \<Rightarrow> Context \<Rightarrow> FrenetFramePoint list \<Rightarrow> double \<Rightarrow> double
    \<Rightarrow> PathObstacle \<Rightarrow> PathObstacle" where
  "item_after fp ctx frenet_points lateral_radius lateral_stop_radius po =
     hd (path_obstacles
           (MakeStaticObstacleDecision_body fp ctx frenet_points lateral_radius
              lateral_stop_radius po \<lparr>path_obstacles = [po]\<rparr>))"

section \<open>A straight road\<close>

text \<open>
  A vehicle 2 wide with minimum safe turn radius 5 on a path along the reference line from
  \<open>s = 0\<close> to \<open>s = 100\<close>; the ignore corridor has radius 4 and the stop corridor radius 1.5.
\<close>

definition road_ctx :: Context where
  "road_ctx =
     \<lparr>vehicle_param_width = Dbl 2,
      MinSafeTurnRadius = Dbl 5,
      AdcSlBoundary = \<lparr>start_s = Dbl 0, end_s = Dbl 4, start_l = Dbl (- 1), end_l = Dbl 1\<rparr>,
      GetReferencePoint = (\<lambda>s. \<lparr>ref_x = s, ref_y = Dbl 0, ref_heading = Dbl 0\<rparr>),
      EvaluateByS = (\<lambda>points s. \<lparr>frenet_s = s, frenet_l = Dbl 0\<rparr>),
      FLAGS_lateral_ignore_buffer = Dbl 3,
      FLAGS_static_decision_nudge_l_buffer = Dbl (1 / 2),
      FLAGS_enable_nudge_decision = True,
      FLAGS_nudge_distance_obstacle = Dbl (3 / 10),
      FLAGS_max_stop_distance_obstacle = Dbl 10,
      FLAGS_min_stop_distance_obstacle = Dbl 6,
      FLAGS_destination_obstacle_id = ''DEST'',
      FLAGS_stop_distance_destination = Dbl (1 / 2)\<rparr>"

definition low_floor_ctx :: Context where
  "low_floor_ctx = road_ctx\<lparr>FLAGS_min_stop_distance_obstacle := Dbl 1\<rparr>"

definition inverted_bounds_ctx :: Context where
  "inverted_bounds_ctx =
     road_ctx\<lparr>FLAGS_max_stop_distance_obstacle := Dbl 3,
              FLAGS_min_stop_distance_obstacle := Dbl 6\<rparr>"

definition zero_bounds_ctx :: Context where
  "zero_bounds_ctx =
     road_ctx\<lparr>FLAGS_max_stop_distance_obstacle := Dbl 0,
              FLAGS_min_stop_distance_obstacle := Dbl (- 1)\<rparr>"

definition huge_radius :: real where
  "huge_radius = 2 ^ 600"

definition huge_radius_ctx :: Context where
  "huge_radius_ctx = road_ctx\<lparr>MinSafeTurnRadius := Dbl huge_radius\<rparr>"

definition road_path :: PathData where
  "road_path =
     \<lparr>frenet_frame_path =
        [\<lparr>frenet_s = Dbl 0, frenet_l = Dbl 0\<rparr>, \<lparr>frenet_s = Dbl 100, frenet_l = Dbl 0\<rparr>]\<rparr>"

definition empty_path :: PathData where
  "empty_path = \<lparr>frenet_frame_path = []\<rparr>"

definition box_obstacle :: "string \<Rightarrow> real \<Rightarrow> real \<Rightarrow> real \<Rightarrow> PathObstacle" where
  "box_obstacle name s0 l0 l1 =
     \<lparr>obstacle = \<lparr>Id = name, IsStatic = True\<rparr>,
      boundary_type = OTHER_BOUNDARY 0,
      perception_sl_boundary =
        \<lparr>start_s = Dbl s0, end_s = Dbl (s0 + 1), start_l = Dbl l0, end_l = Dbl l1\<rparr>,
      longitudinal_slot = Unset,
      lateral_slot = Unset\<rparr>"

definition other_stop :: ObjectStop where
  "other_stop =
     \<lparr>reason_code = STOP_REASON_OBSTACLE, distance_s = Dbl (- 7),
      stop_point = \<lparr>point_x = Dbl 43, point_y = Dbl 0\<rparr>, stop_heading = Dbl 0\<rparr>"

definition far_obstacle :: PathObstacle where
  "far_obstacle = box_obstacle ''far'' 150 (- (1 / 4)) (1 / 4)"

definition stopped_obstacle :: PathObstacle where
  "stopped_obstacle =
     (box_obstacle ''stopped'' 50 (- (1 / 4)) (1 / 4))
       \<lparr>longitudinal_slot := SetBy ''TrafficDecider'' (Stop other_stop)\<rparr>"

definition junction_obstacle :: PathObstacle where
  "junction_obstacle =
     (box_obstacle ''junction'' 60 (- (1 / 4)) (1 / 4))\<lparr>boundary_type := KEEP_CLEAR\<rparr>"

definition ahead_obstacle :: PathObstacle where
  "ahead_obstacle = box_obstacle ''ahead'' 50 (- (1 / 4)) (1 / 4)"

definition kerb_obstacle :: PathObstacle where
  "kerb_obstacle = box_obstacle ''kerb'' 70 (- 2) (- (3 / 2))"

definition destination_obstacle :: PathObstacle where
  "destination_obstacle = box_obstacle ''DEST'' 90 (- 1) 1"

definition gate_obstacle :: PathObstacle where
  "gate_obstacle = box_obstacle ''gate'' 50 (- 1) 11"

definition slim_obstacle :: PathObstacle where
  "slim_obstacle = box_obstacle ''slim'' 50 1 2"

definition near_obstacle :: PathObstacle where
  "near_obstacle = box_obstacle ''near'' 50 1 4"

definition broad_obstacle :: PathObstacle where
  "broad_obstacle = box_obstacle ''broad'' 50 1 9"

definition road_ledger :: PathDecision where
  "road_ledger =
     \<lparr>path_obstacles =
        [far_obstacle, stopped_obstacle, junction_obstacle, ahead_obstacle, kerb_obstacle]\<rparr>"

section \<open>Arithmetic of the model\<close>

lemma std_min_Dbl [simp]: "std_min (Dbl a) (Dbl b) = Dbl (min a b)"
  by (simp add: std_min_def min_def)

lemma std_max_Dbl [simp]: "std_max (Dbl a) (Dbl b) = Dbl (max a b)"
  by (simp add: std_max_def max_def)

lemma std_min_NaN [simp]: "std_min a NaN = a" "std_min NaN b = NaN"
  by (cases a; cases b; simp add: std_min_def)+

lemma std_max_NaN [simp]: "std_max a NaN = a" "std_max NaN b = NaN"
  by (cases a; cases b; simp add: std_max_def)+

lemma dsub_Dbl [simp]: "dsub fp (Dbl a) (Dbl b) = fp (a - b)"
  by (simp add: dsub_def)

lemma sqrt_16: "sqrt 16 = 4"
  using real_sqrt_abs [of 4] by simp

lemma sqrt_25: "sqrt 25 = 5"
  using real_sqrt_abs [of 5] by simp

subsection \<open>Consequences of the properties of the rounding\<close>

lemma rounding_mono: "is_rounding fp \<Longrightarrow> x \<le> y \<Longrightarrow> dle (fp x) (fp y)"
  by (simp add: is_rounding_def)

lemma rounding_fixed: "is_rounding fp \<Longrightarrow> fp x = Dbl y \<Longrightarrow> fp y = Dbl y"
  by (auto simp: is_rounding_def)

lemma rounding_zero:
  assumes "is_rounding fp"
  shows "fp 0 = Dbl 0"
proof -
  have "dle (fp 0) (fp 0)" using assms rounding_mono by blast
  moreover have "fp 0 = dneg (fp 0)"
    using assms by (metis is_rounding_def minus_zero)
  ultimately show ?thesis by (cases "fp 0") auto
qed

lemma rounding_between:
  assumes "is_rounding fp" and "fp a = Dbl a'" and "fp b = Dbl b'"
    and "a \<le> x" and "x \<le> b"
  shows "\<exists>c. fp x = Dbl c \<and> a' \<le> c \<and> c \<le> b'"
proof -
  have "dle (fp a) (fp x)" "dle (fp x) (fp b)"
    using assms rounding_mono by blast+
  then show ?thesis using assms(2,3) by (cases "fp x") auto
qed

lemma rounding_le:
  assumes "is_rounding fp" and "fp x = Dbl a" and "fp y = Dbl b" and "x \<le> y"
  shows "a \<le> b"
  using rounding_mono [OF assms(1,4)] assms(2,3) by simp

subsection \<open>The rounding of the examples\<close>

lemma DBL_MAX_large: "2 ^ 1000 \<le> DBL_MAX"
proof -
  have "(2::real) ^ 1024 = 2 ^ 53 * 2 ^ 971" by (simp add: power_add [symmetric])
  then have "DBL_MAX = (2 ^ 53 - 1) * 2 ^ 971" by (simp add: DBL_MAX_def algebra_simps)
  moreover have "(2::real) ^ 1000 = 2 ^ 29 * 2 ^ 971" by (simp add: power_add [symmetric])
  moreover have "(2::real) ^ 29 \<le> 2 ^ 53 - 1" by simp
  ultimately show ?thesis by (simp add: mult_right_mono)
qed

lemma round_in_range_small [simp]:
  assumes "\<bar>x\<bar> \<le> 2 ^ 20"
  shows "round_in_range x = Dbl x"
proof -
  have "(2::real) ^ 20 \<le> 2 ^ 1000" by (rule power_increasing) simp_all
  with assms DBL_MAX_large have "\<bar>x\<bar> \<le> DBL_MAX" by linarith
  then show ?thesis by (auto simp: round_in_range_def)
qed

lemma round_in_range_is_rounding: "is_rounding round_in_range"
proof -
  have pos: "0 \<le> DBL_MAX"
    using DBL_MAX_large by (meson order_trans zero_le_numeral zero_le_power)
  have "dle (round_in_range x) (round_in_range y)" if "x \<le> y" for x y
    using that pos by (auto simp: round_in_range_def)
  moreover have "round_in_range (- x) = dneg (round_in_range x)" for x
    using pos by (auto simp: round_in_range_def)
  moreover have "round_in_range y = Dbl y" if "round_in_range x = Dbl y" for x y
    using that by (auto simp: round_in_range_def split: if_splits)
  ultimately show ?thesis
    by (simp add: is_rounding_def)
qed

subsection \<open>The steps of the stop distance\<close>

lemma stop_distance_steps:
  assumes fp: "is_rounding fp" and R: "fp R = Dbl R" and q: "fp (R * R) = Dbl q"
    and d: "0 \<le> d" "d \<le> 2 * R"
  obtains t u r s where "fp (R - d) = Dbl t" and "\<bar>t\<bar> \<le> R"
    and "fp (t * t) = Dbl u" and "0 \<le> u" and "u \<le> q"
    and "fp (q - u) = Dbl r" and "0 \<le> r"
    and "fp (sqrt r) = Dbl s" and "0 \<le> s"
proof -
  have zero: "fp 0 = Dbl 0" using fp by (rule rounding_zero)
  have one: "fp 1 = Dbl 1" using fp by (simp add: is_rounding_def)
  have "fp (- R) = dneg (fp R)" using fp by (simp add: is_rounding_def)
  then have mR: "fp (- R) = Dbl (- R)" using R by simp
  obtain t where t: "fp (R - d) = Dbl t" "- R \<le> t" "t \<le> R"
    using rounding_between [OF fp mR R, of "R - d"] d by auto
  then have abs_t: "\<bar>t\<bar> \<le> R" by simp
  have "t * t = \<bar>t\<bar> * \<bar>t\<bar>" by simp
  also have "\<dots> \<le> R * R" using abs_t by (intro mult_mono) simp_all
  finally have tt: "t * t \<le> R * R" .
  obtain u where u: "fp (t * t) = Dbl u" "0 \<le> u" "u \<le> q"
    using rounding_between [OF fp zero q, of "t * t"] tt by auto
  have qq: "fp q = Dbl q" using rounding_fixed [OF fp q] .
  obtain r where r: "fp (q - u) = Dbl r" "0 \<le> r" "r \<le> q"
    using rounding_between [OF fp zero qq, of "q - u"] u by auto
  have rr: "fp r = Dbl r" using rounding_fixed [OF fp r(1)] .
  have top: "fp (max 1 r) = Dbl (max 1 r)" using one rr by (simp add: max_def)
  have "sqrt r \<le> max 1 r"
  proof (cases "r \<le> 1")
    case True
    then have "sqrt r \<le> sqrt 1" by (simp only: real_sqrt_le_iff)
    then show ?thesis by simp
  next
    case False
    then have "1 \<le> r" by simp
    then have "sqrt r \<le> r" using sqrt_le_D [of r r] r(2)
      by (metis mult_left_mono mult.right_neutral real_le_lsqrt power2_eq_square)
    then show ?thesis by simp
  qed
  moreover have "0 \<le> sqrt r" using r(2) by simp
  ultimately obtain s where s: "fp (sqrt r) = Dbl s" "0 \<le> s"
    using rounding_between [OF fp zero top, of "sqrt r"] by auto
  show ?thesis using that t(1) abs_t u r(1,2) s by blast
qed

lemma radicand_steps:
  assumes "fp (R * R) = Dbl q" and "fp (R - d) = Dbl t" and "fp (t * t) = Dbl u"
  shows "radicand fp (Dbl R) (Dbl d) = fp (q - u)"
  using assms by (simp add: radicand_def)

lemma stop_distance_from_steps:
  assumes "MinSafeTurnRadius ctx = Dbl R" and "lateral_diff_clamped fp ctx po = Dbl d"
    and "fp (R * R) = Dbl q" and "fp (R - d) = Dbl t" and "fp (t * t) = Dbl u"
    and "fp (q - u) = Dbl r" and "0 \<le> r" and "fp (sqrt r) = Dbl s"
  shows "MinimumRadiusStopDistance fp ctx po =
           std_max (std_min (fp (s + 1 / 2)) (FLAGS_max_stop_distance_obstacle ctx))
                   (FLAGS_min_stop_distance_obstacle ctx)"
  using assms
  by (simp add: MinimumRadiusStopDistance_def Let_def radicand_steps stop_distance_buffer_def)

lemma clamp_mono:
  assumes "dle x y"
  shows "dle (std_max (std_min x hi) lo) (std_max (std_min y hi) lo)"
  using assms
  by (cases x; cases y; cases hi; cases lo) (auto simp: std_min_def std_max_def)

lemma clamp_finite:
  assumes "dle (Dbl a) x"
  shows "\<exists>c. std_max (std_min x (Dbl hi)) (Dbl lo) = Dbl c \<and> lo \<le> c \<and>
             (lo \<le> hi \<longrightarrow> c \<le> hi) \<and> (0 < a \<and> 0 < hi \<longrightarrow> 0 < c)"
  using assms by (cases x) (auto simp: std_min_def std_max_def)

subsection \<open>Separations and stop distances on the straight road\<close>

lemma lateral_diff_ahead: "lateral_diff_clamped round_in_range road_ctx ahead_obstacle = Dbl 2"
  by (simp add: lateral_diff_clamped_def road_ctx_def box_obstacle_def ahead_obstacle_def
      Let_def)

lemma lateral_diff_gate: "lateral_diff_clamped round_in_range road_ctx gate_obstacle = Dbl 12"
  by (simp add: lateral_diff_clamped_def road_ctx_def box_obstacle_def gate_obstacle_def
      Let_def)

lemma lateral_diff_slim:
  "lateral_diff_clamped round_in_range low_floor_ctx slim_obstacle = Dbl 3"
  by (simp add: lateral_diff_clamped_def low_floor_ctx_def road_ctx_def box_obstacle_def
      slim_obstacle_def Let_def)

lemma lateral_diff_near:
  "lateral_diff_clamped round_in_range low_floor_ctx near_obstacle = Dbl 5"
  by (simp add: lateral_diff_clamped_def low_floor_ctx_def road_ctx_def box_obstacle_def
      near_obstacle_def Let_def)

lemma lateral_diff_broad:
  "lateral_diff_clamped round_in_range low_floor_ctx broad_obstacle = Dbl 10"
  by (simp add: lateral_diff_clamped_def low_floor_ctx_def road_ctx_def box_obstacle_def
      broad_obstacle_def Let_def)

lemma lateral_diff_inverted:
  "lateral_diff_clamped round_in_range inverted_bounds_ctx ahead_obstacle = Dbl 2"
  by (simp add: lateral_diff_clamped_def inverted_bounds_ctx_def road_ctx_def
      box_obstacle_def ahead_obstacle_def Let_def)

lemma lateral_diff_zero:
  "lateral_diff_clamped round_in_range zero_bounds_ctx ahead_obstacle = Dbl 2"
  by (simp add: lateral_diff_clamped_def zero_bounds_ctx_def road_ctx_def
      box_obstacle_def ahead_obstacle_def Let_def)

lemma stop_distance_gate:
  "MinimumRadiusStopDistance round_in_range road_ctx gate_obstacle = NaN"
  by (simp add: MinimumRadiusStopDistance_def Let_def lateral_diff_gate radicand_def)
    (simp add: road_ctx_def)

lemma stop_distance_near:
  "MinimumRadiusStopDistance round_in_range low_floor_ctx near_obstacle = Dbl (11 / 2)"
  by (simp add: MinimumRadiusStopDistance_def Let_def lateral_diff_near radicand_def
      stop_distance_buffer_def)
    (simp add: low_floor_ctx_def road_ctx_def sqrt_25)

lemma stop_distance_broad:
  "MinimumRadiusStopDistance round_in_range low_floor_ctx broad_obstacle = Dbl 1"
  by (simp add: MinimumRadiusStopDistance_def Let_def lateral_diff_broad radicand_def
      stop_distance_buffer_def)
    (simp add: low_floor_ctx_def road_ctx_def)

lemma stop_distance_inverted:
  "MinimumRadiusStopDistance round_in_range inverted_bounds_ctx ahead_obstacle = Dbl 6"
  by (simp add: MinimumRadiusStopDistance_def Let_def lateral_diff_inverted radicand_def
      stop_distance_buffer_def)
    (simp add: inverted_bounds_ctx_def road_ctx_def sqrt_16)

lemma stop_distance_zero:
  "MinimumRadiusStopDistance round_in_range zero_bounds_ctx ahead_obstacle = Dbl 0"
  by (simp add: MinimumRadiusStopDistance_def Let_def lateral_diff_zero radicand_def
      stop_distance_buffer_def)
    (simp add: zero_bounds_ctx_def road_ctx_def sqrt_16)

text \<open>
  A minimum turn radius whose square is beyond the finite range: both products overflow to
  the positive infinity, their difference is NaN, and so is the returned distance.
\<close>

lemma stop_distance_overflow:
  "MinimumRadiusStopDistance round_in_range huge_radius_ctx ahead_obstacle = NaN"
proof -
  have ld: "lateral_diff_clamped round_in_range huge_radius_ctx ahead_obstacle = Dbl 2"
    by (simp add: lateral_diff_clamped_def huge_radius_ctx_def road_ctx_def box_obstacle_def
        ahead_obstacle_def Let_def)
  have R: "MinSafeTurnRadius huge_radius_ctx = Dbl huge_radius"
    by (simp add: huge_radius_ctx_def)
  have "DBL_MAX < huge_radius * huge_radius"
    by (simp add: DBL_MAX_def huge_radius_def)
  then have sq: "round_in_range (huge_radius * huge_radius) = PosInf"
    by (simp add: round_in_range_def)
  have "- DBL_MAX \<le> huge_radius - 2" "huge_radius - 2 \<le> DBL_MAX"
    by (simp_all add: DBL_MAX_def huge_radius_def)
  then have t: "round_in_range (huge_radius - 2) = Dbl (huge_radius - 2)"
    by (auto simp: round_in_range_def)
  have "DBL_MAX < (huge_radius - 2) * (huge_radius - 2)"
    by (simp add: DBL_MAX_def huge_radius_def)
  then have tt: "round_in_range ((huge_radius - 2) * (huge_radius - 2)) = PosInf"
    by (simp add: round_in_range_def)
  show ?thesis
    by (simp add: MinimumRadiusStopDistance_def Let_def ld R radicand_def sq t tt)
      (simp add: dsub_def)
qed

section \<open>Claims on the stop distance\<close>

text \<open>
  Claim C1, as the code has it. \<open>MinimumRadiusStopDistance\<close> takes the square root of
  \<open>R * R - (R - lateral_diff) * (R - lateral_diff)\<close> with the lateral separation as its two
  width clamps leave it; no clamp to the minimum turn radius \<open>R\<close> comes before. For a double
  \<open>R > 0\<close> whose square does not overflow, a separation \<open>d\<close> with \<open>0 \<le> d \<le> 2 R\<close> and
  clamp bounds that are numbers, the computed expression under the root is not negative and
  the returned distance is a number.
\<close>

theorem radicand_nonnegative_in_range:
  assumes "is_rounding fp"
    and "MinSafeTurnRadius ctx = Dbl R" and "fp R = Dbl R" and "0 < R"
    and "fp (R * R) = Dbl q"
    and "lateral_diff_clamped fp ctx path_obstacle = Dbl d" and "0 \<le> d" and "d \<le> 2 * R"
    and "FLAGS_max_stop_distance_obstacle ctx = Dbl hi"
    and "FLAGS_min_stop_distance_obstacle ctx = Dbl lo"
  shows "dle (Dbl 0) (radicand fp (MinSafeTurnRadius ctx)
                        (lateral_diff_clamped fp ctx path_obstacle)) \<and>
         is_finite (MinimumRadiusStopDistance fp ctx path_obstacle)"
proof -
  obtain t u r s where st: "fp (R - d) = Dbl t" "fp (t * t) = Dbl u"
      "fp (q - u) = Dbl r" "0 \<le> r" "fp (sqrt r) = Dbl s" "0 \<le> s"
    using stop_distance_steps [OF assms(1,3,5,7,8)] by metis
  have rad: "radicand fp (MinSafeTurnRadius ctx) (lateral_diff_clamped fp ctx path_obstacle)
      = Dbl r"
    using radicand_steps [OF assms(5) st(1,2)] st(3) assms(2,6) by simp
  have "dle (fp (1 / 2)) (fp (s + 1 / 2))"
    using rounding_mono [OF assms(1), of "1 / 2" "s + 1 / 2"] st(6) by simp
  then have "dle (Dbl (1 / 2)) (fp (s + 1 / 2))"
    using assms(1) by (simp add: is_rounding_def)
  then obtain c where "std_max (std_min (fp (s + 1 / 2)) (Dbl hi)) (Dbl lo) = Dbl c"
    using clamp_finite by blast
  then have "MinimumRadiusStopDistance fp ctx path_obstacle = Dbl c"
    using stop_distance_from_steps [OF assms(2,6,5) st(1,2,3,4,5)] assms(9,10) by simp
  then show ?thesis using rad st(4) by simp
qed

theorem radicand_nonnegative_in_range_witness:
  "is_rounding round_in_range \<and> MinSafeTurnRadius road_ctx = Dbl 5 \<and>
   round_in_range 5 = Dbl 5 \<and> round_in_range (5 * 5) = Dbl 25 \<and>
   lateral_diff_clamped round_in_range road_ctx ahead_obstacle = Dbl 2 \<and>
   FLAGS_max_stop_distance_obstacle road_ctx = Dbl 10 \<and>
   FLAGS_min_stop_distance_obstacle road_ctx = Dbl 6 \<and>
   dle (Dbl 0) (radicand round_in_range (MinSafeTurnRadius road_ctx)
                  (lateral_diff_clamped round_in_range road_ctx ahead_obstacle)) \<and>
   is_finite (MinimumRadiusStopDistance round_in_range road_ctx ahead_obstacle)"
proof -
  have R: "MinSafeTurnRadius road_ctx = Dbl 5" by (simp add: road_ctx_def)
  have hi: "FLAGS_max_stop_distance_obstacle road_ctx = Dbl 10" by (simp add: road_ctx_def)
  have lo: "FLAGS_min_stop_distance_obstacle road_ctx = Dbl 6" by (simp add: road_ctx_def)
  have r: "round_in_range 5 = Dbl 5" "round_in_range (5 * 5) = Dbl 25" by simp_all
  have o: "(0::real) < 5" "(0::real) \<le> 2" "(2::real) \<le> 2 * 5" by simp_all
  show ?thesis
    using round_in_range_is_rounding R r lateral_diff_ahead hi lo
      radicand_nonnegative_in_range
        [OF round_in_range_is_rounding R r(1) o(1) r(2) lateral_diff_ahead o(2,3) hi lo]
    by simp
qed

text \<open>
  Claim C1 as stated fails: with \<open>R = 5\<close> and an obstacle 12 wide next to a vehicle 2 wide,
  the separation stays 12, above \<open>R\<close>; the expression under the root is \<open>- 24\<close> and the
  returned distance is NaN.
\<close>

theorem no_clamp_to_turn_radius:
  "dless (Dbl 0) (MinSafeTurnRadius road_ctx) \<and>
   lateral_diff_clamped round_in_range road_ctx gate_obstacle = Dbl 12 \<and>
   dless (MinSafeTurnRadius road_ctx)
         (lateral_diff_clamped round_in_range road_ctx gate_obstacle) \<and>
   radicand round_in_range (MinSafeTurnRadius road_ctx)
     (lateral_diff_clamped round_in_range road_ctx gate_obstacle) = Dbl (- 24) \<and>
   \<not> is_finite (MinimumRadiusStopDistance round_in_range road_ctx gate_obstacle)"
  by (simp add: lateral_diff_gate stop_distance_gate radicand_def) (simp add: road_ctx_def)

text \<open>
  Claim C2, as the code has it. For two calls with the same minimum turn radius \<open>R\<close>, a
  double whose square does not overflow, and the same clamp bounds, whose separations
  satisfy \<open>0 \<le> d1 \<le> d2 \<le> R\<close>, the distance returned for \<open>d1\<close> is at most the distance
  returned for \<open>d2\<close>.
\<close>

theorem stop_distance_monotone_up_to_radius:
  assumes "is_rounding fp"
    and "MinSafeTurnRadius ctx1 = Dbl R" and "MinSafeTurnRadius ctx2 = Dbl R"
    and "fp R = Dbl R" and "fp (R * R) = Dbl q"
    and "FLAGS_max_stop_distance_obstacle ctx2 = FLAGS_max_stop_distance_obstacle ctx1"
    and "FLAGS_min_stop_distance_obstacle ctx2 = FLAGS_min_stop_distance_obstacle ctx1"
    and "lateral_diff_clamped fp ctx1 po1 = Dbl d1"
    and "lateral_diff_clamped fp ctx2 po2 = Dbl d2"
    and "0 \<le> d1" and "d1 \<le> d2" and "d2 \<le> R"
  shows "dle (MinimumRadiusStopDistance fp ctx1 po1) (MinimumRadiusStopDistance fp ctx2 po2)"
proof -
  have d1: "d1 \<le> 2 * R" and d2: "0 \<le> d2" "d2 \<le> 2 * R"
    using assms(10,11,12) by simp_all
  obtain t1 u1 r1 s1 where a: "fp (R - d1) = Dbl t1" "fp (t1 * t1) = Dbl u1"
      "fp (q - u1) = Dbl r1" "0 \<le> r1" "fp (sqrt r1) = Dbl s1"
    using stop_distance_steps [OF assms(1,4,5,10) d1] by metis
  obtain t2 u2 r2 s2 where b: "fp (R - d2) = Dbl t2" "fp (t2 * t2) = Dbl u2"
      "fp (q - u2) = Dbl r2" "0 \<le> r2" "fp (sqrt r2) = Dbl s2"
    using stop_distance_steps [OF assms(1,4,5) d2] by metis
  have "0 \<le> t2"
    using rounding_le [OF assms(1) rounding_zero [OF assms(1)] b(1)] assms(12) by simp
  moreover have "t2 \<le> t1"
    using rounding_le [OF assms(1) b(1) a(1)] assms(11) by simp
  ultimately have "t2 * t2 \<le> t1 * t1" by (intro mult_mono) simp_all
  then have "u2 \<le> u1" using rounding_le [OF assms(1) b(2) a(2)] by simp
  then have "r1 \<le> r2" using rounding_le [OF assms(1) a(3) b(3)] by simp
  then have "sqrt r1 \<le> sqrt r2" by simp
  then have "s1 \<le> s2" using rounding_le [OF assms(1) a(5) b(5)] by simp
  then have "dle (fp (s1 + 1 / 2)) (fp (s2 + 1 / 2))"
    using rounding_mono [OF assms(1)] by simp
  then show ?thesis
    using stop_distance_from_steps [OF assms(2,8,5) a]
      stop_distance_from_steps [OF assms(3,9,5) b] assms(6,7) clamp_mono
    by simp
qed

theorem stop_distance_monotone_up_to_radius_witness:
  "is_rounding round_in_range \<and> MinSafeTurnRadius low_floor_ctx = Dbl 5 \<and>
   round_in_range 5 = Dbl 5 \<and> round_in_range (5 * 5) = Dbl 25 \<and>
   lateral_diff_clamped round_in_range low_floor_ctx slim_obstacle = Dbl 3 \<and>
   lateral_diff_clamped round_in_range low_floor_ctx near_obstacle = Dbl 5 \<and>
   dle (MinimumRadiusStopDistance round_in_range low_floor_ctx slim_obstacle)
       (MinimumRadiusStopDistance round_in_range low_floor_ctx near_obstacle)"
proof -
  have R: "MinSafeTurnRadius low_floor_ctx = Dbl 5"
    by (simp add: low_floor_ctx_def road_ctx_def)
  have r: "round_in_range 5 = Dbl 5" "round_in_range (5 * 5) = Dbl 25" by simp_all
  have o: "(0::real) \<le> 3" "(3::real) \<le> 5" "(5::real) \<le> 5" by simp_all
  show ?thesis
    using round_in_range_is_rounding R r lateral_diff_slim lateral_diff_near
      stop_distance_monotone_up_to_radius
        [OF round_in_range_is_rounding R R r refl refl lateral_diff_slim lateral_diff_near o]
    by simp
qed

text \<open>
  Claim C2 as stated fails: with \<open>R = 5\<close> and bounds 1 and 10, the separation 5 gives the
  distance 5.5 and the larger separation 10 gives the distance 1.
\<close>

theorem stop_distance_falls_beyond_radius:
  "MinSafeTurnRadius low_floor_ctx = Dbl 5 \<and>
   lateral_diff_clamped round_in_range low_floor_ctx near_obstacle = Dbl 5 \<and>
   lateral_diff_clamped round_in_range low_floor_ctx broad_obstacle = Dbl 10 \<and>
   MinimumRadiusStopDistance round_in_range low_floor_ctx near_obstacle = Dbl (11 / 2) \<and>
   MinimumRadiusStopDistance round_in_range low_floor_ctx broad_obstacle = Dbl 1 \<and>
   \<not> dle (MinimumRadiusStopDistance round_in_range low_floor_ctx near_obstacle)
          (MinimumRadiusStopDistance round_in_range low_floor_ctx broad_obstacle)"
  by (simp add: lateral_diff_near lateral_diff_broad stop_distance_near stop_distance_broad)
    (simp add: low_floor_ctx_def road_ctx_def)

text \<open>
  Claim C3, as the code has it. For a double \<open>R > 0\<close> whose square does not overflow, a
  separation \<open>d\<close> with \<open>0 \<le> d \<le> 2 R\<close> and bounds that are numbers with
  \<open>min_stop_distance \<le> max_stop_distance\<close> and \<open>0 < max_stop_distance\<close>, the returned
  distance lies within the two bounds and is strictly positive.
\<close>

theorem stop_distance_within_bounds:
  assumes "is_rounding fp"
    and "MinSafeTurnRadius ctx = Dbl R" and "fp R = Dbl R" and "0 < R"
    and "fp (R * R) = Dbl q"
    and "lateral_diff_clamped fp ctx path_obstacle = Dbl d" and "0 \<le> d" and "d \<le> 2 * R"
    and "FLAGS_min_stop_distance_obstacle ctx = Dbl lo"
    and "FLAGS_max_stop_distance_obstacle ctx = Dbl hi"
    and "lo \<le> hi" and "0 < hi"
  shows "dle (FLAGS_min_stop_distance_obstacle ctx)
             (MinimumRadiusStopDistance fp ctx path_obstacle) \<and>
         dle (MinimumRadiusStopDistance fp ctx path_obstacle)
             (FLAGS_max_stop_distance_obstacle ctx) \<and>
         dless (Dbl 0) (MinimumRadiusStopDistance fp ctx path_obstacle)"
proof -
  obtain t u r s where st: "fp (R - d) = Dbl t" "fp (t * t) = Dbl u"
      "fp (q - u) = Dbl r" "0 \<le> r" "fp (sqrt r) = Dbl s" "0 \<le> s"
    using stop_distance_steps [OF assms(1,3,5,7,8)] by metis
  have "dle (fp (1 / 2)) (fp (s + 1 / 2))"
    using rounding_mono [OF assms(1), of "1 / 2" "s + 1 / 2"] st(6) by simp
  then have "dle (Dbl (1 / 2)) (fp (s + 1 / 2))"
    using assms(1) by (simp add: is_rounding_def)
  then obtain c where c: "std_max (std_min (fp (s + 1 / 2)) (Dbl hi)) (Dbl lo) = Dbl c"
      "lo \<le> c" "c \<le> hi" "0 < c"
    using clamp_finite [of "1 / 2" "fp (s + 1 / 2)" hi lo] assms(11,12) by auto
  have "MinimumRadiusStopDistance fp ctx path_obstacle = Dbl c"
    using stop_distance_from_steps [OF assms(2,6,5) st(1,2,3,4,5)] assms(9,10) c(1) by simp
  then show ?thesis using c(2,3,4) assms(9,10) by simp
qed

theorem stop_distance_within_bounds_witness:
  "is_rounding round_in_range \<and> MinSafeTurnRadius road_ctx = Dbl 5 \<and>
   round_in_range 5 = Dbl 5 \<and> round_in_range (5 * 5) = Dbl 25 \<and>
   lateral_diff_clamped round_in_range road_ctx ahead_obstacle = Dbl 2 \<and>
   FLAGS_min_stop_distance_obstacle road_ctx = Dbl 6 \<and>
   FLAGS_max_stop_distance_obstacle road_ctx = Dbl 10 \<and>
   dle (Dbl 6) (MinimumRadiusStopDistance round_in_range road_ctx ahead_obstacle) \<and>
   dle (MinimumRadiusStopDistance round_in_range road_ctx ahead_obstacle) (Dbl 10) \<and>
   dless (Dbl 0) (MinimumRadiusStopDistance round_in_range road_ctx ahead_obstacle)"
proof -
  have R: "MinSafeTurnRadius road_ctx = Dbl 5" by (simp add: road_ctx_def)
  have lo: "FLAGS_min_stop_distance_obstacle road_ctx = Dbl 6" by (simp add: road_ctx_def)
  have hi: "FLAGS_max_stop_distance_obstacle road_ctx = Dbl 10" by (simp add: road_ctx_def)
  have r: "round_in_range 5 = Dbl 5" "round_in_range (5 * 5) = Dbl 25" by simp_all
  have o: "(0::real) < 5" "(0::real) \<le> 2" "(2::real) \<le> 2 * 5" "(6::real) \<le> 10"
    "(0::real) < 10"
    by simp_all
  show ?thesis
    using round_in_range_is_rounding R r lateral_diff_ahead lo hi
      stop_distance_within_bounds
        [OF round_in_range_is_rounding R r(1) o(1) r(2) lateral_diff_ahead o(2,3) lo hi
          o(4,5)]
    by simp
qed

text \<open>
  Claim C3 as stated fails in three ways, each with \<open>R = 5 > 0\<close>: the obstacle 12 wide gives
  NaN, which is neither within the bounds 6 and 10 nor positive; the bounds
  \<open>min_stop_distance = 6\<close> and \<open>max_stop_distance = 3\<close> give the distance 6, above the upper
  bound; the bounds \<open>- 1\<close> and \<open>0\<close> give the distance 0, which is not positive.
\<close>

theorem stop_distance_outside_bounds:
  "dless (Dbl 0) (MinSafeTurnRadius road_ctx) \<and>
   \<not> dle (FLAGS_min_stop_distance_obstacle road_ctx)
          (MinimumRadiusStopDistance round_in_range road_ctx gate_obstacle) \<and>
   \<not> dless (Dbl 0) (MinimumRadiusStopDistance round_in_range road_ctx gate_obstacle) \<and>
   dless (Dbl 0) (MinSafeTurnRadius inverted_bounds_ctx) \<and>
   \<not> dle (MinimumRadiusStopDistance round_in_range inverted_bounds_ctx ahead_obstacle)
          (FLAGS_max_stop_distance_obstacle inverted_bounds_ctx) \<and>
   dless (Dbl 0) (MinSafeTurnRadius zero_bounds_ctx) \<and>
   \<not> dless (Dbl 0) (MinimumRadiusStopDistance round_in_range zero_bounds_ctx ahead_obstacle)"
  by (simp add: stop_distance_gate stop_distance_inverted stop_distance_zero)
    (simp add: inverted_bounds_ctx_def zero_bounds_ctx_def road_ctx_def)

section \<open>The loop, item by item\<close>

lemma update_first_nth:
  "distinct (map (\<lambda>po. Id (obstacle po)) pos) \<Longrightarrow> j < length pos
   \<Longrightarrow> Id (obstacle (pos ! j)) = oid \<Longrightarrow> update_first oid f pos = pos[j := f (pos ! j)]"
proof (induction pos arbitrary: j)
  case Nil
  then show ?case by simp
next
  case (Cons po pos)
  show ?case
  proof (cases j)
    case 0
    with Cons.prems show ?thesis by simp
  next
    case (Suc k)
    with Cons.prems have "Id (obstacle po) \<noteq> oid"
      by auto
    with Cons Suc show ?thesis by simp
  qed
qed

lemma body_list_update:
  assumes "distinct (obstacle_ids pd)" and "j < length (path_obstacles pd)"
    and "path_obstacles pd ! j = po"
  shows "path_obstacles (MakeStaticObstacleDecision_body fp ctx fps lr lsr po pd) =
           (path_obstacles pd)[j := item_after fp ctx fps lr lsr po]"
proof -
  have upd: "update_first (Id (obstacle po)) f (path_obstacles pd) =
      (path_obstacles pd)[j := f po]" for f
    using assms update_first_nth [of "path_obstacles pd" j "Id (obstacle po)" f]
    by (simp add: obstacle_ids_def)
  have same: "(path_obstacles pd)[j := po] = path_obstacles pd"
    using assms by (metis list_update_id)
  have upd2: "update_first (Id (obstacle po)) g ((path_obstacles pd)[j := po']) =
      (path_obstacles pd)[j := g po']" if "obstacle po' = obstacle po" for g po'
  proof -
    have "map (\<lambda>po. Id (obstacle po)) ((path_obstacles pd)[j := po']) = obstacle_ids pd"
      using assms that
      by (simp add: obstacle_ids_def map_update) (metis list_update_id map_update)
    then show ?thesis
      using assms that
        update_first_nth [of "(path_obstacles pd)[j := po']" j "Id (obstacle po)" g]
      by simp
  qed
  show ?thesis
    unfolding MakeStaticObstacleDecision_body_def item_after_def
    by (auto simp add: Let_def AddLateralDecision_def AddLongitudinalDecision_def
        upd upd2 same)
qed

lemma item_after_obstacle:
  "obstacle (item_after fp ctx fps lr lsr po) = obstacle po"
  unfolding MakeStaticObstacleDecision_body_def item_after_def
  by (simp add: Let_def AddLateralDecision_def AddLongitudinalDecision_def)

lemma body_ids:
  assumes "distinct (obstacle_ids pd)" and "j < length (path_obstacles pd)"
  shows "obstacle_ids (MakeStaticObstacleDecision_body fp ctx fps lr lsr (path_obstacles pd ! j) pd)
           = obstacle_ids pd"
  using assms body_list_update [OF assms refl, of fp ctx fps lr lsr]
  by (simp add: obstacle_ids_def map_update item_after_obstacle)
    (metis list_update_id map_update)

lemma loop_nth:
  assumes "distinct (obstacle_ids pd)" and "distinct items"
    and "\<forall>i \<in> set items. i < length (path_obstacles pd)"
    and "j < length (path_obstacles pd)"
  shows "path_obstacles (MakeStaticObstacleDecision_loop fp ctx fps lr lsr items pd) ! j =
           (if j \<in> set items then item_after fp ctx fps lr lsr (path_obstacles pd ! j)
            else path_obstacles pd ! j)"
  using assms
proof (induction items arbitrary: pd)
  case Nil
  then show ?case by simp
next
  case (Cons i items)
  let ?pd' = "MakeStaticObstacleDecision_body fp ctx fps lr lsr (path_obstacles pd ! i) pd"
  have i: "i < length (path_obstacles pd)" using Cons.prems by simp
  have pos': "path_obstacles ?pd' =
      (path_obstacles pd)[i := item_after fp ctx fps lr lsr (path_obstacles pd ! i)]"
    using body_list_update [OF Cons.prems(1) i refl] .
  have ids': "obstacle_ids ?pd' = obstacle_ids pd"
    using body_ids [OF Cons.prems(1) i] .
  have len': "length (path_obstacles ?pd') = length (path_obstacles pd)"
    using pos' by simp
  have IH: "path_obstacles (MakeStaticObstacleDecision_loop fp ctx fps lr lsr items ?pd') ! j =
      (if j \<in> set items then item_after fp ctx fps lr lsr (path_obstacles ?pd' ! j)
       else path_obstacles ?pd' ! j)"
    using Cons.IH [of ?pd'] Cons.prems ids' len' by simp
  show ?case
  proof (cases "j = i")
    case True
    with Cons.prems have "j \<notin> set items" by simp
    with IH True i pos' show ?thesis by simp
  next
    case False
    with IH pos' show ?thesis by simp
  qed
qed

lemma MakeStaticObstacleDecision_nth:
  assumes "frenet_frame_path path_data \<noteq> []"
    and "distinct (obstacle_ids pd)" and "j < length (path_obstacles pd)"
  shows "path_obstacles (snd (MakeStaticObstacleDecision fp ctx path_data pd)) ! j =
           item_after fp ctx (frenet_frame_path path_data)
             (dadd fp (ddiv fp (vehicle_param_width ctx) (Dbl 2)) (FLAGS_lateral_ignore_buffer ctx))
             (dadd fp (ddiv fp (vehicle_param_width ctx) (Dbl 2))
                   (FLAGS_static_decision_nudge_l_buffer ctx))
             (path_obstacles pd ! j)"
  using assms loop_nth [OF assms(2), of "[0..<length (path_obstacles pd)]" j]
  by (simp add: MakeStaticObstacleDecision_def Let_def)

lemma MakeStaticObstacleDecision_fst:
  "fst (MakeStaticObstacleDecision fp ctx path_data pd) \<longleftrightarrow>
     frenet_frame_path path_data \<noteq> []"
  by (simp add: MakeStaticObstacleDecision_def Let_def)

lemma road_ledger_ids: "distinct (obstacle_ids road_ledger)"
  by (simp add: obstacle_ids_def road_ledger_def box_obstacle_def far_obstacle_def
      stopped_obstacle_def junction_obstacle_def ahead_obstacle_def kerb_obstacle_def)

lemma road_path_points: "frenet_frame_path road_path \<noteq> []"
  by (simp add: road_path_def)

section \<open>Claims on the decisions\<close>

text \<open>
  Claim C5. In a ledger whose obstacles have distinct identities, a static obstacle that
  passes the three filters (not already ignored on both axes, no longitudinal stop, not
  keep-clear) and whose \<open>start_s\<close> lies before the first or after the last point of a non-empty
  path has, after \<open>MakeStaticObstacleDecision\<close>, Ignore in its longitudinal and in its lateral
  slot, both set by the path decider; nothing else of its record changes, and the call
  succeeds.
\<close>

theorem ignore_outside_path:
  assumes "frenet_frame_path path_data \<noteq> []"
    and "distinct (obstacle_ids path_decision)"
    and "j < length (path_obstacles path_decision)"
    and "path_obstacles path_decision ! j = po"
    and "IsStatic (obstacle po)"
    and "\<not> (HasLongitudinalDecision po \<and> has_ignore (LongitudinalDecision po) \<and>
            HasLateralDecision po \<and> has_ignore (LateralDecision po))"
    and "\<not> (HasLongitudinalDecision po \<and> has_stop (LongitudinalDecision po))"
    and "boundary_type po \<noteq> KEEP_CLEAR"
    and "dless (start_s (perception_sl_boundary po))
               (frenet_s (hd (frenet_frame_path path_data))) \<or>
         dgreater (start_s (perception_sl_boundary po))
               (frenet_s (last (frenet_frame_path path_data)))"
  shows "fst (MakeStaticObstacleDecision fp ctx path_data path_decision) \<and>
         path_obstacles (snd (MakeStaticObstacleDecision fp ctx path_data path_decision)) ! j =
           po\<lparr>longitudinal_slot := SetBy ''PathDecider'' Ignore,
              lateral_slot := SetBy ''PathDecider'' Ignore\<rparr>"
proof -
  have "item_after fp ctx (frenet_frame_path path_data) lr lsr po =
      po\<lparr>longitudinal_slot := SetBy ''PathDecider'' Ignore,
         lateral_slot := SetBy ''PathDecider'' Ignore\<rparr>" for lr lsr
    using assms(5-9)
    by (auto simp add: item_after_def MakeStaticObstacleDecision_body_def Let_def
        AddLateralDecision_def AddLongitudinalDecision_def)
  then show ?thesis
    using MakeStaticObstacleDecision_nth [OF assms(1,2,3), of fp ctx] assms(1,4)
    by (simp add: MakeStaticObstacleDecision_fst)
qed

theorem ignore_outside_path_witness:
  "frenet_frame_path road_path \<noteq> [] \<and> distinct (obstacle_ids road_ledger) \<and>
   0 < length (path_obstacles road_ledger) \<and>
   path_obstacles road_ledger ! 0 = far_obstacle \<and>
   IsStatic (obstacle far_obstacle) \<and>
   boundary_type far_obstacle \<noteq> KEEP_CLEAR \<and>
   dgreater (start_s (perception_sl_boundary far_obstacle))
            (frenet_s (last (frenet_frame_path road_path))) \<and>
   longitudinal_slot
     (path_obstacles
        (snd (MakeStaticObstacleDecision round_in_range road_ctx road_path road_ledger)) ! 0) =
     SetBy ''PathDecider'' Ignore \<and>
   lateral_slot
     (path_obstacles
        (snd (MakeStaticObstacleDecision round_in_range road_ctx road_path road_ledger)) ! 0) =
     SetBy ''PathDecider'' Ignore"
proof -
  have h: "0 < length (path_obstacles road_ledger)"
    "path_obstacles road_ledger ! 0 = far_obstacle"
    "IsStatic (obstacle far_obstacle)"
    "\<not> (HasLongitudinalDecision far_obstacle \<and>
        has_ignore (LongitudinalDecision far_obstacle) \<and>
        HasLateralDecision far_obstacle \<and> has_ignore (LateralDecision far_obstacle))"
    "\<not> (HasLongitudinalDecision far_obstacle \<and>
        has_stop (LongitudinalDecision far_obstacle))"
    "boundary_type far_obstacle \<noteq> KEEP_CLEAR"
    "dless (start_s (perception_sl_boundary far_obstacle))
       (frenet_s (hd (frenet_frame_path road_path))) \<or>
     dgreater (start_s (perception_sl_boundary far_obstacle))
       (frenet_s (last (frenet_frame_path road_path)))"
    by (simp_all add: road_path_def road_ledger_def far_obstacle_def box_obstacle_def
        HasLongitudinalDecision_def dgreater_def)
  have g: "dgreater (start_s (perception_sl_boundary far_obstacle))
       (frenet_s (last (frenet_frame_path road_path)))"
    by (simp add: road_path_def far_obstacle_def box_obstacle_def dgreater_def)
  show ?thesis
    using h(1,2,3,6) g road_path_points road_ledger_ids
      ignore_outside_path [OF road_path_points road_ledger_ids h, of round_in_range road_ctx]
    by simp
qed

text \<open>
  Claim C6. In a ledger whose obstacles have distinct identities, the record of a static
  obstacle that already holds a Stop decision in its longitudinal slot is the same after
  \<open>MakeStaticObstacleDecision\<close> as before: neither slot is written.
\<close>

theorem skip_longitudinal_stop:
  assumes "distinct (obstacle_ids path_decision)"
    and "j < length (path_obstacles path_decision)"
    and "IsStatic (obstacle (path_obstacles path_decision ! j))"
    and "HasLongitudinalDecision (path_obstacles path_decision ! j)"
    and "has_stop (LongitudinalDecision (path_obstacles path_decision ! j))"
  shows "path_obstacles (snd (MakeStaticObstacleDecision fp ctx path_data path_decision)) ! j =
           path_obstacles path_decision ! j"
proof (cases "frenet_frame_path path_data = []")
  case True
  then show ?thesis by (simp add: MakeStaticObstacleDecision_def)
next
  case False
  have "item_after fp ctx fps lr lsr (path_obstacles path_decision ! j) =
      path_obstacles path_decision ! j" for fps lr lsr
    using assms(4,5) by (simp add: item_after_def MakeStaticObstacleDecision_body_def Let_def)
  then show ?thesis
    using MakeStaticObstacleDecision_nth [OF False assms(1,2)] by simp
qed

theorem skip_longitudinal_stop_witness:
  "distinct (obstacle_ids road_ledger) \<and> 1 < length (path_obstacles road_ledger) \<and>
   IsStatic (obstacle (path_obstacles road_ledger ! 1)) \<and>
   HasLongitudinalDecision (path_obstacles road_ledger ! 1) \<and>
   has_stop (LongitudinalDecision (path_obstacles road_ledger ! 1)) \<and>
   longitudinal_slot
     (path_obstacles
        (snd (MakeStaticObstacleDecision round_in_range road_ctx road_path road_ledger)) ! 1) =
     SetBy ''TrafficDecider'' (Stop other_stop) \<and>
   lateral_slot
     (path_obstacles
        (snd (MakeStaticObstacleDecision round_in_range road_ctx road_path road_ledger)) ! 1) =
     Unset"
proof -
  have h: "1 < length (path_obstacles road_ledger)"
    "IsStatic (obstacle (path_obstacles road_ledger ! 1))"
    "HasLongitudinalDecision (path_obstacles road_ledger ! 1)"
    "has_stop (LongitudinalDecision (path_obstacles road_ledger ! 1))"
    by (simp_all add: road_ledger_def stopped_obstacle_def box_obstacle_def
        HasLongitudinalDecision_def LongitudinalDecision_def)
  have slots: "longitudinal_slot (path_obstacles road_ledger ! 1) =
      SetBy ''TrafficDecider'' (Stop other_stop)"
    "lateral_slot (path_obstacles road_ledger ! 1) = Unset"
    by (simp_all add: road_ledger_def stopped_obstacle_def box_obstacle_def)
  show ?thesis
    using h road_ledger_ids slots
      skip_longitudinal_stop [OF road_ledger_ids h, of round_in_range road_ctx road_path]
    by simp
qed

text \<open>
  Claim C8. In a ledger whose obstacles have distinct identities, the record of an obstacle
  whose boundary type is the keep-clear marker is the same after
  \<open>MakeStaticObstacleDecision\<close> as before: the policy writes no decision for it.
\<close>

theorem skip_keep_clear:
  assumes "distinct (obstacle_ids path_decision)"
    and "j < length (path_obstacles path_decision)"
    and "boundary_type (path_obstacles path_decision ! j) = KEEP_CLEAR"
  shows "path_obstacles (snd (MakeStaticObstacleDecision fp ctx path_data path_decision)) ! j =
           path_obstacles path_decision ! j"
proof (cases "frenet_frame_path path_data = []")
  case True
  then show ?thesis by (simp add: MakeStaticObstacleDecision_def)
next
  case False
  have "item_after fp ctx fps lr lsr (path_obstacles path_decision ! j) =
      path_obstacles path_decision ! j" for fps lr lsr
    using assms(3) by (simp add: item_after_def MakeStaticObstacleDecision_body_def Let_def)
  then show ?thesis
    using MakeStaticObstacleDecision_nth [OF False assms(1,2)] by simp
qed

theorem skip_keep_clear_witness:
  "distinct (obstacle_ids road_ledger) \<and> 2 < length (path_obstacles road_ledger) \<and>
   boundary_type (path_obstacles road_ledger ! 2) = KEEP_CLEAR \<and>
   longitudinal_slot
     (path_obstacles
        (snd (MakeStaticObstacleDecision round_in_range road_ctx road_path road_ledger)) ! 2) =
     Unset \<and>
   lateral_slot
     (path_obstacles
        (snd (MakeStaticObstacleDecision round_in_range road_ctx road_path road_ledger)) ! 2) =
     Unset"
proof -
  have h: "2 < length (path_obstacles road_ledger)"
    "boundary_type (path_obstacles road_ledger ! 2) = KEEP_CLEAR"
    by (simp_all add: road_ledger_def junction_obstacle_def box_obstacle_def)
  have slots: "longitudinal_slot (path_obstacles road_ledger ! 2) = Unset"
    "lateral_slot (path_obstacles road_ledger ! 2) = Unset"
    by (simp_all add: road_ledger_def junction_obstacle_def box_obstacle_def)
  show ?thesis
    using h road_ledger_ids slots
      skip_keep_clear [OF road_ledger_ids h, of round_in_range road_ctx road_path]
    by simp
qed

text \<open>
  Claim C10. In a ledger whose obstacles have distinct identities, a static obstacle that
  passes the three filters, lies within the span of the path, is not ignored laterally and
  overlaps the corridor of \<open>lateral_stop_radius\<close> around the planned lateral position takes
  the stop branch: after \<open>MakeStaticObstacleDecision\<close> its longitudinal slot holds the Stop
  decision of \<open>GenerateObjectStopDecision\<close>, set by the path decider, and its lateral slot is
  what it was before the call.
\<close>

theorem stop_leaves_lateral:
  assumes "frenet_frame_path path_data \<noteq> []"
    and "distinct (obstacle_ids path_decision)"
    and "j < length (path_obstacles path_decision)"
    and "path_obstacles path_decision ! j = po"
    and "IsStatic (obstacle po)"
    and "\<not> (HasLongitudinalDecision po \<and> has_ignore (LongitudinalDecision po) \<and>
            HasLateralDecision po \<and> has_ignore (LateralDecision po))"
    and "\<not> (HasLongitudinalDecision po \<and> has_stop (LongitudinalDecision po))"
    and "boundary_type po \<noteq> KEEP_CLEAR"
    and "\<not> (dless (start_s (perception_sl_boundary po))
               (frenet_s (hd (frenet_frame_path path_data))) \<or>
            dgreater (start_s (perception_sl_boundary po))
               (frenet_s (last (frenet_frame_path path_data))))"
    and "half_width = ddiv fp (vehicle_param_width ctx) (Dbl 2)"
    and "curr_l = frenet_l (EvaluateByS ctx (frenet_frame_path path_data)
                               (start_s (perception_sl_boundary po)))"
    and "\<not> (dgreater (dsub fp curr_l (dadd fp half_width (FLAGS_lateral_ignore_buffer ctx)))
                     (end_l (perception_sl_boundary po)) \<or>
            dless (dadd fp curr_l (dadd fp half_width (FLAGS_lateral_ignore_buffer ctx)))
                  (start_l (perception_sl_boundary po)))"
    and "dless (dsub fp curr_l (dadd fp half_width (FLAGS_static_decision_nudge_l_buffer ctx)))
               (end_l (perception_sl_boundary po)) \<and>
         dgreater (dadd fp curr_l (dadd fp half_width (FLAGS_static_decision_nudge_l_buffer ctx)))
                  (start_l (perception_sl_boundary po))"
  shows "path_obstacles (snd (MakeStaticObstacleDecision fp ctx path_data path_decision)) ! j =
           po\<lparr>longitudinal_slot :=
                SetBy ''PathDecider'' (Stop (GenerateObjectStopDecision fp ctx po))\<rparr> \<and>
         lateral_slot
           (path_obstacles (snd (MakeStaticObstacleDecision fp ctx path_data path_decision)) ! j) =
           lateral_slot po"
proof -
  have "item_after fp ctx (frenet_frame_path path_data)
          (dadd fp half_width (FLAGS_lateral_ignore_buffer ctx))
          (dadd fp half_width (FLAGS_static_decision_nudge_l_buffer ctx)) po =
      po\<lparr>longitudinal_slot :=
                SetBy ''PathDecider'' (Stop (GenerateObjectStopDecision fp ctx po))\<rparr>"
    using assms(5-9) assms(12,13) unfolding assms(11)
    by (auto simp add: item_after_def MakeStaticObstacleDecision_body_def Let_def
        AddLateralDecision_def AddLongitudinalDecision_def)
  then show ?thesis
    using MakeStaticObstacleDecision_nth [OF assms(1,2,3), of fp ctx] assms(4,10)
    by simp
qed

theorem stop_leaves_lateral_witness:
  "frenet_frame_path road_path \<noteq> [] \<and> distinct (obstacle_ids road_ledger) \<and>
   3 < length (path_obstacles road_ledger) \<and>
   path_obstacles road_ledger ! 3 = ahead_obstacle \<and>
   IsStatic (obstacle ahead_obstacle) \<and>
   boundary_type ahead_obstacle \<noteq> KEEP_CLEAR \<and>
   dless (dsub round_in_range (Dbl 0) (Dbl (3 / 2)))
         (end_l (perception_sl_boundary ahead_obstacle)) \<and>
   dgreater (dadd round_in_range (Dbl 0) (Dbl (3 / 2)))
            (start_l (perception_sl_boundary ahead_obstacle)) \<and>
   longitudinal_slot
     (path_obstacles
        (snd (MakeStaticObstacleDecision round_in_range road_ctx road_path road_ledger)) ! 3) =
     SetBy ''PathDecider''
       (Stop (GenerateObjectStopDecision round_in_range road_ctx ahead_obstacle)) \<and>
   lateral_slot
     (path_obstacles
        (snd (MakeStaticObstacleDecision round_in_range road_ctx road_path road_ledger)) ! 3) =
     Unset"
proof -
  have hw: "Dbl 1 = ddiv round_in_range (vehicle_param_width road_ctx) (Dbl 2)"
    by (simp add: road_ctx_def)
  have cl: "Dbl 0 = frenet_l (EvaluateByS road_ctx (frenet_frame_path road_path)
                               (start_s (perception_sl_boundary ahead_obstacle)))"
    by (simp add: road_ctx_def)
  have h: "3 < length (path_obstacles road_ledger)"
    "path_obstacles road_ledger ! 3 = ahead_obstacle"
    "IsStatic (obstacle ahead_obstacle)"
    "\<not> (HasLongitudinalDecision ahead_obstacle \<and>
        has_ignore (LongitudinalDecision ahead_obstacle) \<and>
        HasLateralDecision ahead_obstacle \<and> has_ignore (LateralDecision ahead_obstacle))"
    "\<not> (HasLongitudinalDecision ahead_obstacle \<and>
        has_stop (LongitudinalDecision ahead_obstacle))"
    "boundary_type ahead_obstacle \<noteq> KEEP_CLEAR"
    "\<not> (dless (start_s (perception_sl_boundary ahead_obstacle))
          (frenet_s (hd (frenet_frame_path road_path))) \<or>
        dgreater (start_s (perception_sl_boundary ahead_obstacle))
          (frenet_s (last (frenet_frame_path road_path))))"
    by (simp_all add: road_path_def road_ledger_def ahead_obstacle_def box_obstacle_def
        HasLongitudinalDecision_def dgreater_def)
  have d: "\<not> (dgreater (dsub round_in_range (Dbl 0)
                        (dadd round_in_range (Dbl 1) (FLAGS_lateral_ignore_buffer road_ctx)))
                     (end_l (perception_sl_boundary ahead_obstacle)) \<or>
            dless (dadd round_in_range (Dbl 0)
                     (dadd round_in_range (Dbl 1) (FLAGS_lateral_ignore_buffer road_ctx)))
                  (start_l (perception_sl_boundary ahead_obstacle)))"
    by (simp add: road_ctx_def ahead_obstacle_def box_obstacle_def dgreater_def)
  have e: "dless (dsub round_in_range (Dbl 0)
                  (dadd round_in_range (Dbl 1)
                     (FLAGS_static_decision_nudge_l_buffer road_ctx)))
               (end_l (perception_sl_boundary ahead_obstacle)) \<and>
         dgreater (dadd round_in_range (Dbl 0)
                     (dadd round_in_range (Dbl 1)
                        (FLAGS_static_decision_nudge_l_buffer road_ctx)))
                  (start_l (perception_sl_boundary ahead_obstacle))"
    by (simp add: road_ctx_def ahead_obstacle_def box_obstacle_def dgreater_def)
  have e': "dless (dsub round_in_range (Dbl 0) (Dbl (3 / 2)))
              (end_l (perception_sl_boundary ahead_obstacle))"
    "dgreater (dadd round_in_range (Dbl 0) (Dbl (3 / 2)))
              (start_l (perception_sl_boundary ahead_obstacle))"
    by (simp_all add: ahead_obstacle_def box_obstacle_def dgreater_def)
  have u: "lateral_slot ahead_obstacle = Unset"
    by (simp add: ahead_obstacle_def box_obstacle_def)
  show ?thesis
    using h(1,2,3,6) e' u road_path_points road_ledger_ids
      stop_leaves_lateral [OF road_path_points road_ledger_ids h hw cl d e]
    by simp
qed

text \<open>
  The tests of the stop branch and of the left-nudge branch both compare strictly. When
  neither holds and no value is NaN, the obstacle starts at or beyond the upper edge of the
  stop corridor, or it ends exactly at the lower edge.
\<close>

lemma strict_tests_leave_edge:
  assumes "\<not> (dless lower_edge e \<and> dgreater upper_edge s)"
    and "\<not> dgreater lower_edge e"
    and "lower_edge \<noteq> NaN" and "upper_edge \<noteq> NaN"
    and "e \<noteq> NaN" and "s \<noteq> NaN"
  shows "dle upper_edge s \<or> lower_edge = e"
  using assms
  by (cases lower_edge; cases e; cases upper_edge; cases s) (auto simp: dgreater_def)

text \<open>
  Claim C4 fails on the code where the obstacle ends exactly at the right edge of the stop
  corridor. On the straight road the stop corridor reaches from \<open>- 1.5\<close> to \<open>1.5\<close>; the
  obstacle from \<open>- 2\<close> to \<open>- 1.5\<close> lies on the right of the planned position \<open>0\<close>, neither
  the stop test nor the left-nudge test is met (both compare strictly), and the lateral slot
  receives a right nudge by \<open>- 0.3\<close>, although the planned position plus the stop radius
  exceeds the obstacle's \<open>start_l\<close>.
\<close>

theorem right_nudge_at_corridor_edge:
  "path_obstacles
     (snd (MakeStaticObstacleDecision round_in_range road_ctx road_path road_ledger)) ! 4 =
     kerb_obstacle
       \<lparr>lateral_slot :=
          SetBy ''PathDecider''
            (Nudge \<lparr>nudge_type = RIGHT_NUDGE, distance_l = Dbl (- (3 / 10))\<rparr>)\<rparr> \<and>
   dless (end_l (perception_sl_boundary kerb_obstacle))
         (frenet_l (EvaluateByS road_ctx (frenet_frame_path road_path)
                      (start_s (perception_sl_boundary kerb_obstacle)))) \<and>
   \<not> dle (dadd round_in_range (frenet_l (EvaluateByS road_ctx (frenet_frame_path road_path)
                             (start_s (perception_sl_boundary kerb_obstacle))))
                (dadd round_in_range (ddiv round_in_range (vehicle_param_width road_ctx) (Dbl 2))
                      (FLAGS_static_decision_nudge_l_buffer road_ctx)))
          (start_l (perception_sl_boundary kerb_obstacle))"
proof -
  have len: "4 < length (path_obstacles road_ledger)"
    and at: "path_obstacles road_ledger ! 4 = kerb_obstacle"
    by (simp_all add: road_ledger_def)
  have "item_after round_in_range road_ctx (frenet_frame_path road_path)
          (dadd round_in_range (ddiv round_in_range (vehicle_param_width road_ctx) (Dbl 2))
                (FLAGS_lateral_ignore_buffer road_ctx))
          (dadd round_in_range (ddiv round_in_range (vehicle_param_width road_ctx) (Dbl 2))
                (FLAGS_static_decision_nudge_l_buffer road_ctx))
          kerb_obstacle =
        kerb_obstacle
          \<lparr>lateral_slot :=
             SetBy ''PathDecider''
               (Nudge \<lparr>nudge_type = RIGHT_NUDGE, distance_l = Dbl (- (3 / 10))\<rparr>)\<rparr>"
    by (simp add: item_after_def MakeStaticObstacleDecision_body_def Let_def
        AddLateralDecision_def HasLongitudinalDecision_def HasLateralDecision_def
        LongitudinalDecision_def dgreater_def road_ctx_def road_path_def kerb_obstacle_def
        box_obstacle_def)
  then have "path_obstacles
      (snd (MakeStaticObstacleDecision round_in_range road_ctx road_path road_ledger)) ! 4
      = kerb_obstacle
          \<lparr>lateral_slot :=
             SetBy ''PathDecider''
               (Nudge \<lparr>nudge_type = RIGHT_NUDGE, distance_l = Dbl (- (3 / 10))\<rparr>)\<rparr>"
    using MakeStaticObstacleDecision_nth
        [OF road_path_points road_ledger_ids len, of round_in_range road_ctx]
      at by simp
  then show ?thesis
    by (simp add: road_ctx_def kerb_obstacle_def box_obstacle_def)
qed

text \<open>
  Claim C9. On a path without points \<open>MakeStaticObstacleDecision\<close> returns false and the
  ledger it was given, and \<open>Process\<close> returns the planning error together with that same
  ledger.
\<close>

theorem empty_path_fails:
  assumes "frenet_frame_path path_data = []"
  shows "MakeStaticObstacleDecision fp ctx path_data path_decision = (False, path_decision) \<and>
         Process fp ctx path_data (Some path_decision) =
           Returned \<lparr>code = PLANNING_ERROR, msg = ''dp_road_graph decision ''\<rparr> path_decision"
  using assms
  by (simp add: Process_def MakeObjectDecision_def MakeStaticObstacleDecision_def)

theorem empty_path_fails_witness:
  "frenet_frame_path empty_path = [] \<and>
   MakeStaticObstacleDecision round_in_range road_ctx empty_path road_ledger =
     (False, road_ledger) \<and>
   Process round_in_range road_ctx empty_path (Some road_ledger) =
     Returned \<lparr>code = PLANNING_ERROR, msg = ''dp_road_graph decision ''\<rparr> road_ledger"
proof -
  have h: "frenet_frame_path empty_path = []" by (simp add: empty_path_def)
  show ?thesis
    using h empty_path_fails [OF h, of round_in_range road_ctx road_ledger] by simp
qed

text \<open>
  Claim C7. For an obstacle whose identity is the configured destination identity,
  \<open>GenerateObjectStopDecision\<close> returns a stop with reason destination, whose \<open>distance_s\<close> is
  the negated \<open>stop_distance_destination\<close> and whose stop point and heading are those of the
  reference point at \<open>start_s - stop_distance_destination\<close>; the stop distance of the turning
  radius does not enter the result.
\<close>

theorem destination_stop:
  assumes "Id (obstacle path_obstacle) = FLAGS_destination_obstacle_id ctx"
  shows "GenerateObjectStopDecision fp ctx path_obstacle =
           (let stop_ref_point =
                  GetReferencePoint ctx
                    (dsub fp (start_s (perception_sl_boundary path_obstacle))
                          (FLAGS_stop_distance_destination ctx))
            in \<lparr>reason_code = STOP_REASON_DESTINATION,
                distance_s = dneg (FLAGS_stop_distance_destination ctx),
                stop_point = \<lparr>point_x = ref_x stop_ref_point, point_y = ref_y stop_ref_point\<rparr>,
                stop_heading = ref_heading stop_ref_point\<rparr>)"
  using assms by (simp add: GenerateObjectStopDecision_def Let_def)

theorem destination_stop_witness:
  "Id (obstacle destination_obstacle) = FLAGS_destination_obstacle_id road_ctx \<and>
   GenerateObjectStopDecision round_in_range road_ctx destination_obstacle =
     \<lparr>reason_code = STOP_REASON_DESTINATION,
      distance_s = Dbl (- (1 / 2)),
      stop_point = \<lparr>point_x = Dbl (179 / 2), point_y = Dbl 0\<rparr>,
      stop_heading = Dbl 0\<rparr>"
proof -
  have h: "Id (obstacle destination_obstacle) = FLAGS_destination_obstacle_id road_ctx"
    by (simp add: destination_obstacle_def box_obstacle_def road_ctx_def)
  show ?thesis
    using h destination_stop [OF h]
    by (simp add: Let_def) (simp add: destination_obstacle_def box_obstacle_def road_ctx_def)
qed

end
